theory Spec2Isabelle
  imports Complex_Main "HOL-Library.Multiset"
begin

section \<open>Numbers, vectors and errors\<close>

text \<open>
  Python floats are modelled as exact real numbers: rounding, overflow and the signed
  zero of IEEE arithmetic are outside this development. \<open>math.inf\<close> is the extra
  value \<open>Infinity\<close>. A \<open>pygame.Vector2\<close> is a pair of reals.
\<close>

datatype error = KeyError | ZeroDivisionError | StatisticsError | ValueError

datatype xreal = Finite real | Infinity

type_synonym Vector2 = "real \<times> real"

definition vadd :: "Vector2 \<Rightarrow> Vector2 \<Rightarrow> Vector2" where
  "vadd a b = (fst a + fst b, snd a + snd b)"

definition vscale :: "Vector2 \<Rightarrow> real \<Rightarrow> Vector2" where
  "vscale a k = (fst a * k, snd a * k)"

text \<open>Float division raises on a zero divisor.\<close>

definition fdiv :: "real \<Rightarrow> real \<Rightarrow> error + real" where
  "fdiv a b = (if b = 0 then Inl ZeroDivisionError else Inr (a / b))"

text \<open>\<open>a < b\<close> on floats that may be infinite, and Python's two-argument \<open>min\<close>,
  which returns its first argument unless the second is smaller.\<close>

fun xless :: "xreal \<Rightarrow> xreal \<Rightarrow> bool" where
  "xless (Finite a) (Finite b) = (a < b)"
| "xless (Finite a) Infinity = True"
| "xless Infinity b = False"

definition py_min :: "xreal \<Rightarrow> xreal \<Rightarrow> xreal" where
  "py_min a b = (if xless b a then b else a)"

text \<open>\<open>int(x)\<close> on a float truncates toward zero.\<close>

definition trunc :: "real \<Rightarrow> int" where
  "trunc x = (if 0 \<le> x then \<lfloor>x\<rfloor> else \<lceil>x\<rceil>)"

section \<open>CastingRay.step_to_edge\<close>

definition step_to_edge :: "real \<times> real \<Rightarrow> real \<times> real \<Rightarrow> error + xreal" where
  "step_to_edge position direction =
     (case (if fst direction > 0
            then map_sum id Finite (fdiv (1 - fst position) (fst direction))
            else if fst direction < 0
            then map_sum id (\<lambda>q. Finite (q + 1/1000)) (fdiv (fst position) \<bar>fst direction\<bar>)
            else Inr Infinity) of
        Inl e \<Rightarrow> Inl e
      | Inr step_x \<Rightarrow>
          (case (if snd direction > 0
                 then map_sum id Finite (fdiv (1 - snd position) (snd direction))
                 else if snd direction < 0
                 then map_sum id (\<lambda>q. Finite (q + 1/1000)) (fdiv (snd position) \<bar>snd direction\<bar>)
                 else Inr Infinity) of
             Inl e \<Rightarrow> Inl e
           | Inr step_y \<Rightarrow> Inr (py_min step_x step_y)))"

text \<open>The per-axis edge distance in the words of the specification: a zero heading
  component never limits the step, a positive one gives \<open>(1 - offset) / component\<close>, a
  negative one \<open>offset / |component| + 0.001\<close>.\<close>

definition axis_edge_distance :: "real \<Rightarrow> real \<Rightarrow> xreal" where
  "axis_edge_distance offset component =
     (if component = 0 then Infinity
      else if component > 0 then Finite ((1 - offset) / component)
      else Finite (offset / \<bar>component\<bar> + 1/1000))"

fun xmin :: "xreal \<Rightarrow> xreal \<Rightarrow> xreal" where
  "xmin (Finite a) (Finite b) = Finite (min a b)"
| "xmin (Finite a) Infinity = Finite a"
| "xmin Infinity b = b"

section \<open>Directions, blocks and the grid interface\<close>

text \<open>
  \<open>Direction\<close> is a flag enumeration over the four compass sides: a value is a set of
  sides, \<open>&\<close> is intersection, \<open>|\<close> is union, and the empty set is \<open>Direction.NONE\<close>.
\<close>

datatype side = UP | DOWN | LEFT | RIGHT

type_synonym Direction = "side set"

datatype Wall = NORMAL | BORDER

record Mirror =
  sides :: Direction

type_synonym link = "(int \<times> int) \<times> Direction"

text \<open>\<open>Portal.links\<close> is a dictionary with exactly the four single sides as keys; a
  value is a link or \<open>None\<close>.\<close>

record Portal =
  active :: bool
  links :: "side \<Rightarrow> link option"

text \<open>The \<open>type_\<close> of a cell and the \<open>end_type\<close> of a segment:
  \<open>Wall | Mirror | Portal | bool\<close>. An empty cell holds \<open>False\<close>, which is also the
  tag of a segment that ran out of visible distance.\<close>

datatype block = BoolType bool | WallType Wall | MirrorType Mirror | PortalType Portal

text \<open>Python truthiness of a block: enum members and plain objects are true.\<close>

fun truthy :: "block \<Rightarrow> bool" where
  "truthy (BoolType b) = b"
| "truthy (WallType w) = True"
| "truthy (MirrorType m) = True"
| "truthy (PortalType p) = True"

text \<open>The methods and attributes of \<open>CellMap\<close> that the ray caster and the player
  call. The class itself is in the module \<open>cells\<close>, which is not among the sources, so
  it is a parameter; \<open>get_cell\<close> stands for \<open>get_cell(x, y).type_\<close>.\<close>

record CellMap =
  square_size :: real
  map_size :: "real \<times> real"
  get_cell :: "int \<Rightarrow> int \<Rightarrow> block"
  in_bounds :: "Vector2 \<Rightarrow> bool"
  portal_transform :: "Vector2 \<Rightarrow> Vector2 \<Rightarrow> Vector2 \<times> Vector2"

text \<open>The two helper functions imported from the module \<open>cells\<close>, parameters as well.\<close>

record cells =
  split_position :: "Vector2 \<Rightarrow> real \<Rightarrow> Vector2 \<times> Vector2"
  get_enter_side :: "Vector2 \<Rightarrow> Vector2 \<Rightarrow> Direction"

definition ADJACENT_OFFSETS :: "Direction \<rightharpoonup> Vector2" where
  "ADJACENT_OFFSETS =
     [{UP} \<mapsto> (0, -1), {RIGHT} \<mapsto> (1, 0), {DOWN} \<mapsto> (0, 1), {LEFT} \<mapsto> (-1, 0)]"

text \<open>\<open>links[enter_side]\<close>: a key other than a single side raises.\<close>

definition links_lookup :: "(side \<Rightarrow> link option) \<Rightarrow> Direction \<Rightarrow> error + link option" where
  "links_lookup ls enter_side =
     (if enter_side = {UP} then Inr (ls UP)
      else if enter_side = {DOWN} then Inr (ls DOWN)
      else if enter_side = {LEFT} then Inr (ls LEFT)
      else if enter_side = {RIGHT} then Inr (ls RIGHT)
      else Inl KeyError)"

section \<open>CastingRay\<close>

record RaySegment =
  start_pos :: Vector2
  end_pos :: Vector2
  distance :: real
  end_type :: block

record CastingRay =
  direction :: Vector2
  visible_distance :: real
  total_distance :: real
  segment_distance :: real
  segments :: "RaySegment list"
  points :: "(real \<times> real) list"
  start_position :: Vector2
  end_position :: Vector2
  cell_map :: CellMap

definition CastingRay_init :: "Vector2 \<Rightarrow> real \<Rightarrow> Vector2 \<Rightarrow> CellMap \<Rightarrow> CastingRay" where
  "CastingRay_init dir vis player_position cm =
     \<lparr>direction = dir, visible_distance = vis, total_distance = 0, segment_distance = 0,
      segments = [], points = [], start_position = player_position,
      end_position = player_position, cell_map = cm\<rparr>"

definition add_segment_and_point :: "block \<Rightarrow> CastingRay \<Rightarrow> CastingRay" where
  "add_segment_and_point et r =
     r\<lparr>segments := segments r @
          [\<lparr>start_pos = start_position r, end_pos = end_position r,
            distance = segment_distance r, end_type = et\<rparr>],
       points := points r @ [end_position r]\<rparr>"

definition position_step :: "CastingRay \<Rightarrow> real \<Rightarrow> Vector2" where
  "position_step r d = vscale (vscale (direction r) d) (square_size (cell_map r))"

definition mirror_reflect :: "Vector2 \<Rightarrow> Direction \<Rightarrow> CastingRay \<Rightarrow> error + CastingRay" where
  "mirror_reflect cell enter_side r =
     (case ADJACENT_OFFSETS enter_side of
        None \<Rightarrow> Inl KeyError
      | Some offset \<Rightarrow>
          (let adjacent = vadd cell offset in
           if truthy (get_cell (cell_map r) (trunc (fst adjacent)) (trunc (snd adjacent)))
           then
             (if enter_side \<in> {{LEFT}, {RIGHT}}
              then Inr (r\<lparr>direction := (fst (direction r), snd (direction r) * -1)\<rparr>)
              else if enter_side \<in> {{UP}, {DOWN}}
              then Inr (r\<lparr>direction := (fst (direction r) * -1, snd (direction r))\<rparr>)
              else Inr r)
           else
             (if enter_side \<in> {{LEFT}, {RIGHT}}
              then Inr (r\<lparr>direction := (fst (direction r) * -1, snd (direction r))\<rparr>)
              else if enter_side \<in> {{UP}, {DOWN}}
              then Inr (r\<lparr>direction := (fst (direction r), snd (direction r) * -1)\<rparr>)
              else Inr r)))"

text \<open>The result is the returned action string with the updated ray.\<close>

fun handle_type :: "block \<Rightarrow> Direction \<Rightarrow> Vector2 \<Rightarrow> CastingRay \<Rightarrow> error + string \<times> CastingRay" where
  "handle_type (WallType NORMAL) enter_side cell r =
     Inr (''break'', add_segment_and_point (WallType NORMAL) r)"
| "handle_type (MirrorType m) enter_side cell r =
     (if \<not> (sides m \<inter> enter_side \<noteq> {})
      then Inr (''break'', add_segment_and_point (WallType NORMAL) r)
      else
        (let r1 = add_segment_and_point (MirrorType m) r;
             r2 = r1\<lparr>start_position := end_position r1, segment_distance := 0\<rparr>
         in case mirror_reflect cell enter_side r2 of
              Inl e \<Rightarrow> Inl e
            | Inr r3 \<Rightarrow> Inr ('''', r3)))"
| "handle_type (PortalType p) enter_side cell r =
     (case links_lookup (links p) enter_side of
        Inl e \<Rightarrow> Inl e
      | Inr None \<Rightarrow> Inr (''break'', add_segment_and_point (WallType NORMAL) r)
      | Inr (Some l) \<Rightarrow>
          (let r1 = add_segment_and_point (PortalType p) r;
               r2 = r1\<lparr>start_position := end_position r1, segment_distance := 0\<rparr>;
               t = portal_transform (cell_map r2) (start_position r2) (direction r2);
               r3 = r2\<lparr>start_position := fst t, direction := snd t\<rparr>;
               r4 = r3\<lparr>start_position := vadd (start_position r3) (vscale (direction r3) (5/100))\<rparr>;
               r5 = r4\<lparr>end_position := start_position r4\<rparr>
           in Inr (''continue'', r5)))"
| "handle_type cell_type enter_side cell r = Inr ('''', r)"

text \<open>The inner loop of \<open>take_step\<close>, which shortens a step that left the map by one
  percent at a time. It need not end, so it is a partial function and \<open>None\<close> means
  that it runs forever.\<close>

partial_function (option) shorten_until_in_bounds :: "CastingRay \<Rightarrow> real \<Rightarrow> real option" where
  "shorten_until_in_bounds r adjusted_distance =
     (let adjusted = adjusted_distance * (99/100);
          safe_end_position = vadd (end_position r) (position_step r adjusted)
      in if in_bounds (cell_map r) safe_end_position then Some adjusted
         else shorten_until_in_bounds r adjusted)"

text \<open>The common tail of the two shortened cases of \<open>take_step\<close>.\<close>

definition finish_step :: "real \<Rightarrow> block \<Rightarrow> CastingRay \<Rightarrow> string \<times> CastingRay" where
  "finish_step adjusted_distance cell_type r =
     (let r1 = r\<lparr>end_position := vadd (end_position r) (position_step r adjusted_distance)\<rparr>;
          r2 = r1\<lparr>total_distance := total_distance r1 + adjusted_distance\<rparr>;
          r3 = r2\<lparr>segment_distance := segment_distance r2 + adjusted_distance\<rparr>
      in (''break'', add_segment_and_point cell_type r3))"

text \<open>An infinite step (both heading components zero) compares greater than the visible
  distance, so the first shortened case applies; \<open>new_position\<close> is computed but never
  read there.\<close>

definition take_step :: "Vector2 \<Rightarrow> CastingRay \<Rightarrow> (error + string \<times> CastingRay) option" where
  "take_step cell_pos r =
     (case step_to_edge (fst cell_pos, snd cell_pos) (fst (direction r), snd (direction r)) of
        Inl e \<Rightarrow> Some (Inl e)
      | Inr Infinity \<Rightarrow>
          Some (Inr (finish_step (visible_distance r - total_distance r) (BoolType False) r))
      | Inr (Finite step_distance) \<Rightarrow>
          (let new_position = vadd (end_position r) (position_step r step_distance);
               new_total_distance = total_distance r + step_distance
           in if new_total_distance > visible_distance r
                 \<or> \<not> in_bounds (cell_map r) new_position
              then
                (if new_total_distance > visible_distance r
                 then Some (Inr (finish_step (visible_distance r - total_distance r)
                                   (BoolType False) r))
                 else (case shorten_until_in_bounds r step_distance of
                         None \<Rightarrow> None
                       | Some adjusted_distance \<Rightarrow>
                           Some (Inr (finish_step adjusted_distance (WallType BORDER) r))))
              else Some (Inr ('''', r\<lparr>end_position := new_position,
                                      total_distance := new_total_distance,
                                      segment_distance := segment_distance r + step_distance\<rparr>))))"

text \<open>One pass through the body of the \<open>while True\<close> loop of \<open>cast\<close>: the action is
  \<open>break\<close> when the loop ends and anything else when it goes round again.\<close>

definition cast_body :: "cells \<Rightarrow> CastingRay \<Rightarrow> (error + string \<times> CastingRay) option" where
  "cast_body c r0 =
     (let r = r0\<lparr>points := points r0 @ [end_position r0]\<rparr>;
          sp = split_position c (end_position r) (square_size (cell_map r));
          cell = fst sp;
          cell_pos = snd sp;
          cell_type = get_cell (cell_map r) (trunc (fst cell)) (trunc (snd cell));
          enter_side = get_enter_side c cell_pos (direction r)
      in case handle_type cell_type enter_side cell r of
           Inl e \<Rightarrow> Some (Inl e)
         | Inr (action, r1) \<Rightarrow>
             if action = ''break'' then Some (Inr (''break'', r1))
             else if action = ''continue'' then Some (Inr (''continue'', r1))
             else take_step cell_pos r1)"

partial_function (option) cast :: "cells \<Rightarrow> CastingRay \<Rightarrow> (error + CastingRay) option" where
  "cast c r =
     (case cast_body c r of
        None \<Rightarrow> None
      | Some (Inl e) \<Rightarrow> Some (Inl e)
      | Some (Inr (action, r1)) \<Rightarrow> if action = ''break'' then Some (Inr r1) else cast c r1)"

text \<open>\<open>Raycaster.cast_ray\<close>: a fresh ray at the player's position, cast to completion.\<close>

definition cast_ray ::
  "cells \<Rightarrow> CellMap \<Rightarrow> Vector2 \<Rightarrow> Vector2 \<Rightarrow> real
     \<Rightarrow> (error + (real \<times> RaySegment list) \<times> (real \<times> real) list) option" where
  "cast_ray c cm player_position dir vis =
     map_option (map_sum id (\<lambda>ray. ((total_distance ray, segments ray), points ray)))
       (cast c (CastingRay_init dir vis player_position cm))"

section \<open>Raycaster.distribute_angles\<close>








section \<open>Player.move\<close>

datatype key = K_LEFT | K_RIGHT | K_LSHIFT | K_w | K_a | K_s | K_d

text \<open>\<open>MovementCombo\<close> is a flag enumeration over the four movement bits; the bits for
  left and right are written \<open>LEFTWARD\<close> and \<open>RIGHTWARD\<close> here, since \<open>LEFT\<close> and
  \<open>RIGHT\<close> are compass sides.\<close>

datatype movement = FORWARD | BACKWARD | LEFTWARD | RIGHTWARD

type_synonym MovementCombo = "movement set"

text \<open>Modelled from the spec: \<open>MovementCombo.resolved\<close>, of the module \<open>directions\<close>
  that is not among the sources. It cancels opposite pairs: forward with backward, left
  with right.\<close>

definition resolved :: "MovementCombo \<Rightarrow> MovementCombo" where
  "resolved m =
     (let m1 = (if FORWARD \<in> m \<and> BACKWARD \<in> m then m - {FORWARD, BACKWARD} else m)
      in if LEFTWARD \<in> m1 \<and> RIGHTWARD \<in> m1 then m1 - {LEFTWARD, RIGHTWARD} else m1)"

definition MOVEMENT_ANGLES :: "MovementCombo \<rightharpoonup> real" where
  "MOVEMENT_ANGLES =
     [{FORWARD} \<mapsto> 0, {FORWARD, RIGHTWARD} \<mapsto> 45, {RIGHTWARD} \<mapsto> 90,
      {BACKWARD, RIGHTWARD} \<mapsto> 135, {BACKWARD} \<mapsto> 180, {BACKWARD, LEFTWARD} \<mapsto> 225,
      {LEFTWARD} \<mapsto> 270, {FORWARD, LEFTWARD} \<mapsto> 315]"

definition DIRECTION_BINDS :: "(key \<times> MovementCombo) list" where
  "DIRECTION_BINDS =
     [(K_w, {FORWARD}), (K_a, {LEFTWARD}), (K_s, {BACKWARD}), (K_d, {RIGHTWARD})]"

definition SPEED_MULTIPLIER :: real where
  "SPEED_MULTIPLIER = 3"

record Player =
  radius :: real
  position :: Vector2
  facing :: Vector2

text \<open>\<open>Vector2.rotate\<close> turns a vector by an angle in degrees.\<close>

definition rotate :: "Vector2 \<Rightarrow> real \<Rightarrow> Vector2" where
  "rotate v angle =
     (let t = angle * pi / 180 in
      (fst v * cos t - snd v * sin t, fst v * sin t + snd v * cos t))"

text \<open>\<open>pygame.math.clamp\<close> raises when the lower bound exceeds the upper one.\<close>

definition clamp :: "real \<Rightarrow> real \<Rightarrow> real \<Rightarrow> error + real" where
  "clamp v lo hi =
     (if lo > hi then Inl ValueError
      else if v < lo then Inr lo
      else if v > hi then Inr hi
      else Inr v)"

text \<open>\<open>int(a // b)\<close> for a nonzero divisor.\<close>

definition floordiv :: "real \<Rightarrow> real \<Rightarrow> int" where
  "floordiv a b = \<lfloor>a / b\<rfloor>"

fun is_Portal :: "block \<Rightarrow> bool" where
  "is_Portal (PortalType p) = True"
| "is_Portal b = False"

text \<open>The last two statements of \<open>move\<close>, under its comment \<open>keep in bounds\<close>.\<close>

definition keep_in_bounds :: "CellMap \<Rightarrow> Player \<Rightarrow> error + Player" where
  "keep_in_bounds cm p =
     (case clamp (fst (position p)) (radius p) (fst (map_size cm) - radius p) of
        Inl e \<Rightarrow> Inl e
      | Inr x \<Rightarrow>
          (case clamp (snd (position p)) (radius p) (snd (map_size cm) - radius p) of
             Inl e \<Rightarrow> Inl e
           | Inr y \<Rightarrow> Inr (p\<lparr>position := (x, y)\<rparr>)))"

text \<open>The keys pressed are a predicate on key codes. Every floor division in \<open>move\<close>
  divides by the square size, so the first of them raises when that is zero. The field
  \<open>facing\<close> is the player's \<open>direction\<close>; the sprite's surface and rectangle, which
  only drawing reads, are left out.\<close>

definition move :: "(key \<Rightarrow> bool) \<Rightarrow> CellMap \<Rightarrow> Player \<Rightarrow> error + Player" where
  "move keys cm p =
     (let movement_combo =
            resolved (fold (\<lambda>(key_id, d) m. if keys key_id then m \<union> d else m)
                        DIRECTION_BINDS {})
      in case
           (if movement_combo \<noteq> {} then
              (let multiplier = (if keys K_LSHIFT then SPEED_MULTIPLIER else 1);
                   movement_angle =
                     (case MOVEMENT_ANGLES movement_combo of Some a \<Rightarrow> a | None \<Rightarrow> 0);
                   new_position =
                     vadd (position p) (vscale (rotate (facing p) movement_angle) multiplier);
                   new_x = fst new_position;
                   new_y = snd new_position;
                   sq = square_size cm
               in if sq = 0 then Inl ZeroDivisionError
                  else
                    (let current_cell =
                           (floordiv (fst (position p)) sq, floordiv (snd (position p)) sq);
                         new_cell = (floordiv new_x sq, floordiv new_y sq)
                     in if is_Portal (get_cell cm (fst new_cell) (snd new_cell))
                           \<and> get_cell cm (fst current_cell) (snd current_cell) = BoolType False
                        then
                          (let t = portal_transform cm new_position (facing p) in
                           Inr (p\<lparr>position := fst t, facing := snd t\<rparr>))
                        else
                          (let new_x_cell = (floordiv new_x sq, floordiv (snd (position p)) sq);
                               p1 = (if \<not> truthy (get_cell cm (fst new_x_cell) (snd new_x_cell))
                                     then p\<lparr>position := (new_x, snd (position p))\<rparr> else p);
                               new_y_cell = (floordiv (fst (position p1)) sq, floordiv new_y sq);
                               p2 = (if \<not> truthy (get_cell cm (fst new_y_cell) (snd new_y_cell))
                                     then p1\<lparr>position := (fst (position p1), new_y)\<rparr> else p1)
                           in Inr p2)))
            else Inr p) of
           Inl e \<Rightarrow> Inl e
         | Inr p3 \<Rightarrow> keep_in_bounds cm p3)"

section \<open>Notions used in the statements\<close>

text \<open>The values that one pass of the loop of \<open>cast\<close> computes before it dispatches on
  the cell: the ray with the sample point appended, the cell and the fractional offset
  of the end position, the block in that cell and the side the ray enters it by.\<close>

definition with_point :: "CastingRay \<Rightarrow> CastingRay" where
  "with_point r = r\<lparr>points := points r @ [end_position r]\<rparr>"

definition cell_at :: "cells \<Rightarrow> CastingRay \<Rightarrow> Vector2" where
  "cell_at c r = fst (split_position c (end_position r) (square_size (cell_map r)))"

definition cell_pos_at :: "cells \<Rightarrow> CastingRay \<Rightarrow> Vector2" where
  "cell_pos_at c r = snd (split_position c (end_position r) (square_size (cell_map r)))"

definition cell_type_at :: "cells \<Rightarrow> CastingRay \<Rightarrow> block" where
  "cell_type_at c r =
     get_cell (cell_map r) (trunc (fst (cell_at c r))) (trunc (snd (cell_at c r)))"

definition enter_side_at :: "cells \<Rightarrow> CastingRay \<Rightarrow> Direction" where
  "enter_side_at c r = get_enter_side c (cell_pos_at c r) (direction r)"

text \<open>Where a teleported ray resumes: the portal transform of its position and heading,
  moved on by 0.05 along the new heading.\<close>

definition nudged_image :: "CellMap \<Rightarrow> Vector2 \<Rightarrow> Vector2 \<Rightarrow> Vector2" where
  "nudged_image cm pos dir =
     (let t = portal_transform cm pos dir in vadd (fst t) (vscale (snd t) (5/100)))"

text \<open>The ray after a teleport through the portal \<open>p\<close>: the current segment closed with
  the portal as its tag, the heading transformed, and a fresh segment of length zero whose
  start and end are the nudged point.\<close>

definition teleported :: "Portal \<Rightarrow> CastingRay \<Rightarrow> CastingRay" where
  "teleported p r =
     (add_segment_and_point (PortalType p) r)
       \<lparr>direction := snd (portal_transform (cell_map r) (end_position r) (direction r)),
        segment_distance := 0,
        start_position := nudged_image (cell_map r) (end_position r) (direction r),
        end_position := nudged_image (cell_map r) (end_position r) (direction r)\<rparr>"

text \<open>Flipping the horizontal or the vertical component of a heading, its magnitude, and
  the block in the neighbouring cell one step from a cell in the direction of a side
  (up is towards smaller \<open>y\<close>).\<close>

definition flip_horizontal :: "Vector2 \<Rightarrow> Vector2" where
  "flip_horizontal d = (- fst d, snd d)"

definition flip_vertical :: "Vector2 \<Rightarrow> Vector2" where
  "flip_vertical d = (fst d, - snd d)"

definition magnitude :: "Vector2 \<Rightarrow> real" where
  "magnitude v = sqrt ((fst v)\<^sup>2 + (snd v)\<^sup>2)"

fun side_offset :: "side \<Rightarrow> real \<times> real" where
  "side_offset UP = (0, -1)"
| "side_offset DOWN = (0, 1)"
| "side_offset LEFT = (-1, 0)"
| "side_offset RIGHT = (1, 0)"

definition neighbour :: "CellMap \<Rightarrow> Vector2 \<Rightarrow> side \<Rightarrow> block" where
  "neighbour cm cell s =
     get_cell cm (trunc (fst cell + fst (side_offset s))) (trunc (snd cell + snd (side_offset s)))"




text \<open>The parts of one movement tick: the resolved combination of the pressed movement
  keys, the candidate destination, the block in the cell that holds a position, and the
  condition under which the player is teleported.\<close>

definition pressed_combo :: "(key \<Rightarrow> bool) \<Rightarrow> MovementCombo" where
  "pressed_combo keys =
     resolved (fold (\<lambda>(key_id, d) m. if keys key_id then m \<union> d else m) DIRECTION_BINDS {})"

definition candidate_position :: "(key \<Rightarrow> bool) \<Rightarrow> Player \<Rightarrow> Vector2" where
  "candidate_position keys p =
     vadd (position p)
       (vscale (rotate (facing p)
                  (case MOVEMENT_ANGLES (pressed_combo keys) of Some a \<Rightarrow> a | None \<Rightarrow> 0))
          (if keys K_LSHIFT then SPEED_MULTIPLIER else 1))"

definition cell_of :: "CellMap \<Rightarrow> Vector2 \<Rightarrow> block" where
  "cell_of cm pos =
     get_cell cm (floordiv (fst pos) (square_size cm)) (floordiv (snd pos) (square_size cm))"

definition teleports :: "(key \<Rightarrow> bool) \<Rightarrow> CellMap \<Rightarrow> Player \<Rightarrow> bool" where
  "teleports keys cm p =
     (is_Portal (cell_of cm (candidate_position keys p))
      \<and> cell_of cm (position p) = BoolType False)"

text \<open>The per-axis resolution in the words of the specification, each axis tried on its
  own from the current position; and as the code has it, where the vertical move is
  tried from the horizontal position that the first step left.\<close>

definition glide_independent :: "CellMap \<Rightarrow> Vector2 \<Rightarrow> Vector2 \<Rightarrow> Vector2" where
  "glide_independent cm pos new =
     (if \<not> truthy (cell_of cm (fst new, snd pos)) then fst new else fst pos,
      if \<not> truthy (cell_of cm (fst pos, snd new)) then snd new else snd pos)"

definition glide_sequential :: "CellMap \<Rightarrow> Vector2 \<Rightarrow> Vector2 \<Rightarrow> Vector2" where
  "glide_sequential cm pos new =
     (let x = (if \<not> truthy (cell_of cm (fst new, snd pos)) then fst new else fst pos)
      in (x, if \<not> truthy (cell_of cm (x, snd new)) then snd new else snd pos))"

text \<open>A position held inside the map, inset by the player's radius.\<close>

definition inset :: "CellMap \<Rightarrow> Player \<Rightarrow> Vector2 \<Rightarrow> Vector2" where
  "inset cm p pos =
     (max (radius p) (min (fst (map_size cm) - radius p) (fst pos)),
      max (radius p) (min (snd (map_size cm) - radius p) (snd pos)))"

section \<open>A reference grid\<close>

text \<open>
  The theorems below hold for every grid interface. Their concrete instances need one:
  the following grid is written from section 6 of the specification, since the module
  \<open>cells\<close> is not among the sources.
\<close>

text \<open>Modelled from the spec: \<open>split_position\<close> of the missing module \<open>cells\<close>, which
  splits a position into cell coordinates and a fractional offset in [0,1) on each axis.\<close>

definition ref_split_position :: "Vector2 \<Rightarrow> real \<Rightarrow> Vector2 \<times> Vector2" where
  "ref_split_position pos sq =
     ((of_int \<lfloor>fst pos / sq\<rfloor>, of_int \<lfloor>snd pos / sq\<rfloor>),
      (fst pos / sq - of_int \<lfloor>fst pos / sq\<rfloor>, snd pos / sq - of_int \<lfloor>snd pos / sq\<rfloor>))"

text \<open>Modelled from the spec: \<open>get_enter_side\<close> of the missing module \<open>cells\<close>, the face
  the ray is crossing into, from the fractional offset and the sign of the heading on each
  axis: the face crossed last on the way to the offset, the left or right one on a tie.\<close>

definition ref_get_enter_side :: "Vector2 \<Rightarrow> Vector2 \<Rightarrow> Direction" where
  "ref_get_enter_side cell_pos dir =
     (let tx = (if fst dir > 0 then Finite (fst cell_pos / fst dir)
                else if fst dir < 0 then Finite ((1 - fst cell_pos) / - fst dir)
                else Infinity);
          ty = (if snd dir > 0 then Finite (snd cell_pos / snd dir)
                else if snd dir < 0 then Finite ((1 - snd cell_pos) / - snd dir)
                else Infinity)
      in if tx = Infinity \<and> ty = Infinity then {}
         else if xless ty tx then (if snd dir > 0 then {UP} else {DOWN})
         else (if fst dir > 0 then {LEFT} else {RIGHT}))"

definition ref_cells :: cells where
  "ref_cells = \<lparr>split_position = ref_split_position, get_enter_side = ref_get_enter_side\<rparr>"

text \<open>A quarter turn, the number of quarter turns from the heading \<open>(1, 0)\<close> to the
  outward and to the inward normal of a side, the single side of a flag value, and the
  point of a face of a cell at a fractional offset along it.\<close>

definition rot90 :: "Vector2 \<Rightarrow> Vector2" where
  "rot90 v = (- snd v, fst v)"

fun outward_turns :: "side \<Rightarrow> nat" where
  "outward_turns RIGHT = 0"
| "outward_turns DOWN = 1"
| "outward_turns LEFT = 2"
| "outward_turns UP = 3"

fun inward_turns :: "side \<Rightarrow> nat" where
  "inward_turns LEFT = 0"
| "inward_turns UP = 1"
| "inward_turns RIGHT = 2"
| "inward_turns DOWN = 3"

definition the_side :: "Direction \<Rightarrow> side option" where
  "the_side d =
     (if d = {UP} then Some UP else if d = {DOWN} then Some DOWN
      else if d = {LEFT} then Some LEFT else if d = {RIGHT} then Some RIGHT else None)"

fun face_point :: "real \<Rightarrow> int \<times> int \<Rightarrow> side \<Rightarrow> real \<Rightarrow> Vector2" where
  "face_point sq (cx, cy) LEFT lat = (of_int cx * sq, (of_int cy + lat) * sq)"
| "face_point sq (cx, cy) RIGHT lat = ((of_int cx + 1) * sq, (of_int cy + lat) * sq)"
| "face_point sq (cx, cy) UP lat = ((of_int cx + lat) * sq, of_int cy * sq)"
| "face_point sq (cx, cy) DOWN lat = ((of_int cx + lat) * sq, (of_int cy + 1) * sq)"

text \<open>Modelled from the spec: \<open>CellMap.portal_transform\<close> of the missing module \<open>cells\<close>.
  At a linked side of a portal it returns the position on the linked face of the
  destination cell, at the same offset along the face, and the heading turned by the
  difference in orientation between the side entered and the side left; anywhere else it
  returns its arguments.\<close>

definition ref_portal_transform ::
  "(int \<Rightarrow> int \<Rightarrow> block) \<Rightarrow> real \<Rightarrow> Vector2 \<Rightarrow> Vector2 \<Rightarrow> Vector2 \<times> Vector2" where
  "ref_portal_transform grid sq pos dir =
     (let sp = ref_split_position pos sq;
          cell = fst sp;
          cell_pos = snd sp
      in case grid (trunc (fst cell)) (trunc (snd cell)) of
           PortalType p \<Rightarrow>
             (case the_side (ref_get_enter_side cell_pos dir) of
                None \<Rightarrow> (pos, dir)
              | Some enter \<Rightarrow>
                  (case links p enter of
                     None \<Rightarrow> (pos, dir)
                   | Some (target, exit_flags) \<Rightarrow>
                       (case the_side exit_flags of
                          None \<Rightarrow> (pos, dir)
                        | Some exit \<Rightarrow>
                            (face_point sq target exit
                               (if enter = LEFT \<or> enter = RIGHT then snd cell_pos
                                else fst cell_pos),
                             (rot90 ^^ ((outward_turns exit + 4 - inward_turns enter) mod 4))
                               dir))))
         | _ \<Rightarrow> (pos, dir))"

text \<open>Modelled from the spec: a \<open>CellMap\<close> of the missing module \<open>cells\<close>, from a square
  size, the number of cells on each axis and the blocks. A cell out of range is a border
  wall, and a position is in bounds when it lies in the rectangle of the map.\<close>

definition ref_cell_map :: "real \<Rightarrow> int \<times> int \<Rightarrow> (int \<Rightarrow> int \<Rightarrow> block) \<Rightarrow> CellMap" where
  "ref_cell_map sq dims grid =
     (let inside = (\<lambda>x y. 0 \<le> x \<and> x < fst dims \<and> 0 \<le> y \<and> y < snd dims);
          cell = (\<lambda>x y. if inside x y then grid x y else WallType BORDER)
      in \<lparr>square_size = sq,
          map_size = (of_int (fst dims) * sq, of_int (snd dims) * sq),
          get_cell = cell,
          in_bounds = (\<lambda>pos. 0 \<le> fst pos \<and> fst pos < of_int (fst dims) * sq
                          \<and> 0 \<le> snd pos \<and> snd pos < of_int (snd dims) * sq),
          portal_transform = ref_portal_transform cell sq\<rparr>)"

subsection \<open>Example maps and rays\<close>

text \<open>A portal whose right side leads out of the left face of the cell (2, 0).\<close>

definition tunnel :: Portal where
  "tunnel = \<lparr>active = True, links = (\<lambda>s. if s = RIGHT then Some ((2, 0), {LEFT}) else None)\<rparr>"

text \<open>Rows of four cells of size 10: a wall, an empty cell, the portal, an empty cell;
  the same with a second such portal in place of the empty cell on the left of the first;
  and three empty cells before a wall.\<close>

definition tunnel_map :: CellMap where
  "tunnel_map =
     ref_cell_map 10 (4, 1)
       (\<lambda>x y. if x = 0 then WallType NORMAL
              else if x = 2 then PortalType tunnel
              else BoolType False)"


definition wall_map :: CellMap where
  "wall_map =
     ref_cell_map 10 (4, 1) (\<lambda>x y. if x = 3 then WallType NORMAL else BoolType False)"


definition tunnel_ray1 :: CastingRay where
  "tunnel_ray1 =
     \<lparr>direction = (- 1, 0), visible_distance = 10,
      total_distance = 501 / 1000, segment_distance = 501 / 1000,
      segments = [], points = [(35, 5)], start_position = (35, 5),
      end_position = (2999 / 100, 5), cell_map = tunnel_map\<rparr>"

definition tunnel_ray2 :: CastingRay where
  "tunnel_ray2 =
     \<lparr>direction = (- 1, 0), visible_distance = 10,
      total_distance = 501 / 1000, segment_distance = 0,
      segments = [\<lparr>start_pos = (35, 5), end_pos = (2999 / 100, 5), distance = 501 / 1000,
                   end_type = PortalType tunnel\<rparr>],
      points = [(35, 5), (2999 / 100, 5), (2999 / 100, 5)],
      start_position = (399 / 20, 5), end_position = (399 / 20, 5), cell_map = tunnel_map\<rparr>"



text \<open>A ray cast rightwards in \<open>wall_map\<close> that meets the wall after exactly its visible
  distance.\<close>

definition wall_ray :: CastingRay where
  "wall_ray = CastingRay_init (1, 0) 1 (20, 5) wall_map"

definition wall_ray1 :: CastingRay where
  "wall_ray1 =
     \<lparr>direction = (1, 0), visible_distance = 1, total_distance = 1, segment_distance = 1,
      segments = [], points = [(20, 5)], start_position = (20, 5),
      end_position = (30, 5), cell_map = wall_map\<rparr>"

definition wall_ray2 :: CastingRay where
  "wall_ray2 =
     \<lparr>direction = (1, 0), visible_distance = 1, total_distance = 1, segment_distance = 1,
      segments = [\<lparr>start_pos = (20, 5), end_pos = (30, 5), distance = 1,
                   end_type = WallType NORMAL\<rparr>],
      points = [(20, 5), (30, 5), (30, 5)], start_position = (20, 5),
      end_position = (30, 5), cell_map = wall_map\<rparr>"

text \<open>A ray with a negative visible distance that starts inside the wall.\<close>

definition inside_ray :: CastingRay where
  "inside_ray = CastingRay_init (1, 0) (-1) (35, 5) wall_map"

definition inside_ray1 :: CastingRay where
  "inside_ray1 =
     \<lparr>direction = (1, 0), visible_distance = -1, total_distance = 0, segment_distance = 0,
      segments = [\<lparr>start_pos = (35, 5), end_pos = (35, 5), distance = 0,
                   end_type = WallType NORMAL\<rparr>],
      points = [(35, 5), (35, 5)], start_position = (35, 5),
      end_position = (35, 5), cell_map = wall_map\<rparr>"

text \<open>A ray that runs out of visible distance in open space.\<close>

definition short_ray :: CastingRay where
  "short_ray = CastingRay_init (1, 0) 1 (5, 5) wall_map"

definition short_ray1 :: CastingRay where
  "short_ray1 =
     \<lparr>direction = (1, 0), visible_distance = 1, total_distance = 1/2, segment_distance = 1/2,
      segments = [], points = [(5, 5)], start_position = (5, 5),
      end_position = (10, 5), cell_map = wall_map\<rparr>"

definition short_ray2 :: CastingRay where
  "short_ray2 =
     \<lparr>direction = (1, 0), visible_distance = 1, total_distance = 1, segment_distance = 1,
      segments = [\<lparr>start_pos = (5, 5), end_pos = (15, 5), distance = 1,
                   end_type = BoolType False\<rparr>],
      points = [(5, 5), (10, 5), (15, 5)], start_position = (5, 5),
      end_position = (15, 5), cell_map = wall_map\<rparr>"




text \<open>A ray at the left edge of the third cell of \<open>wall_map\<close>, for the mirror examples.\<close>

definition mirror_ray :: CastingRay where
  "mirror_ray = CastingRay_init (3/5, 4/5) 10 (20, 5) wall_map"

text \<open>A three by three map with a wall in its first cell, a player next to the corner of
  that wall who faces up, and the keys for a sprint forward and to the right.\<close>

definition corner_map :: CellMap where
  "corner_map =
     ref_cell_map 10 (3, 3) (\<lambda>x y. if x = 0 \<and> y = 0 then WallType NORMAL else BoolType False)"

definition sprint_forward_right :: "key \<Rightarrow> bool" where
  "sprint_forward_right k = (k = K_w \<or> k = K_d \<or> k = K_LSHIFT)"

definition player0 :: Player where
  "player0 = \<lparr>radius = 2, position = (9, 11), facing = (0, -1)\<rparr>"


section \<open>Properties of step_to_edge\<close>

lemma py_min_xmin: "py_min a b = xmin a b"
  by (cases a; cases b) (auto simp: py_min_def)


lemma step_to_edge_axes:
  "step_to_edge (x, y) (dx, dy) = Inr (py_min (axis_edge_distance x dx) (axis_edge_distance y dy))"
  by (simp add: step_to_edge_def axis_edge_distance_def fdiv_def)




text \<open>
  C4. For fractional offsets in [0,1) and a heading with a nonzero component,
  \<open>step_to_edge\<close> returns the minimum over the two axes of the per-axis edge distance:
  infinity for a zero component, \<open>(1 - offset) / component\<close> for a positive one and
  \<open>offset / |component| + 0.001\<close> for a negative one.
\<close>

theorem C4_step_to_edge_is_axis_minimum:
  assumes "0 \<le> x" "x < 1" "0 \<le> y" "y < 1" "dx \<noteq> 0 \<or> dy \<noteq> 0"
  shows "step_to_edge (x, y) (dx, dy)
           = Inr (xmin (axis_edge_distance x dx) (axis_edge_distance y dy))"
  by (simp add: step_to_edge_axes py_min_xmin)

theorem C4_witness:
  "(0::real) \<le> 1/4 \<and> (1/4::real) < 1 \<and> (0::real) \<le> 1/2 \<and> (1/2::real) < 1
     \<and> \<not> ((3/5::real) = 0 \<and> (-4/5::real) = 0)
     \<and> step_to_edge (1/4, 1/2) (3/5, -4/5) = Inr (Finite (626/1000))
     \<and> xmin (axis_edge_distance (1/4) (3/5)) (axis_edge_distance (1/2) (-4/5))
         = Finite (626/1000)"
  using C4_step_to_edge_is_axis_minimum [of "1/4" "1/2" "3/5" "-4/5"]
  by (simp add: axis_edge_distance_def)



section \<open>The example grids, evaluated\<close>

lemma tunnel_links: "links tunnel s = (if s = RIGHT then Some ((2, 0), {LEFT}) else None)"
  by (simp add: tunnel_def)

lemma tunnel_map_simps:
  "square_size tunnel_map = 10"
  "get_cell tunnel_map x y =
     (if 0 \<le> x \<and> x < 4 \<and> y = 0
      then (if x = 0 then WallType NORMAL else if x = 2 then PortalType tunnel else BoolType False)
      else WallType BORDER)"
  "in_bounds tunnel_map pos = (0 \<le> fst pos \<and> fst pos < 40 \<and> 0 \<le> snd pos \<and> snd pos < 10)"
  "portal_transform tunnel_map = ref_portal_transform (get_cell tunnel_map) 10"
  by (auto simp: tunnel_map_def ref_cell_map_def Let_def)


lemma wall_map_simps:
  "square_size wall_map = 10"
  "get_cell wall_map x y =
     (if 0 \<le> x \<and> x < 4 \<and> y = 0
      then (if x = 3 then WallType NORMAL else BoolType False)
      else WallType BORDER)"
  "in_bounds wall_map pos = (0 \<le> fst pos \<and> fst pos < 40 \<and> 0 \<le> snd pos \<and> snd pos < 10)"
  by (auto simp: wall_map_def ref_cell_map_def Let_def)

lemma corner_map_simps:
  "square_size corner_map = 10"
  "map_size corner_map = (30, 30)"
  "get_cell corner_map x y =
     (if 0 \<le> x \<and> x < 3 \<and> 0 \<le> y \<and> y < 3
      then (if x = 0 \<and> y = 0 then WallType NORMAL else BoolType False)
      else WallType BORDER)"
  by (auto simp: corner_map_def ref_cell_map_def Let_def)

lemmas eval_defs = cast_body_def Let_def ref_cells_def ref_split_position_def
  ref_get_enter_side_def trunc_def take_step_def step_to_edge_def fdiv_def py_min_def
  position_step_def vadd_def vscale_def add_segment_and_point_def finish_step_def
  links_lookup_def ref_portal_transform_def the_side_def tunnel_links

section \<open>Mirror reflection\<close>

lemma ADJACENT_OFFSETS_single: "ADJACENT_OFFSETS {s} = Some (side_offset s)"
  by (cases s) (simp_all add: ADJACENT_OFFSETS_def)

lemma ADJACENT_OFFSETS_Some:
  "ADJACENT_OFFSETS e = Some off \<Longrightarrow> \<exists>s. e = {s} \<and> off = side_offset s"
  by (auto simp: ADJACENT_OFFSETS_def split: if_splits)

lemma mirror_reflect_single:
  "mirror_reflect cell {s} r =
     Inr (r\<lparr>direction :=
            (if truthy (neighbour (cell_map r) cell s)
             then (if s = LEFT \<or> s = RIGHT then flip_vertical (direction r)
                   else flip_horizontal (direction r))
             else (if s = LEFT \<or> s = RIGHT then flip_horizontal (direction r)
                   else flip_vertical (direction r)))\<rparr>)"
  by (cases s)
     (simp_all add: mirror_reflect_def ADJACENT_OFFSETS_single neighbour_def vadd_def
        flip_vertical_def flip_horizontal_def)

lemma magnitude_flip:
  "magnitude (flip_horizontal d) = magnitude d" "magnitude (flip_vertical d) = magnitude d"
  by (simp_all add: magnitude_def flip_horizontal_def flip_vertical_def)

lemma mirror_reflect_direction:
  assumes "mirror_reflect cell e r = Inr r'"
  shows "\<exists>d. r' = r\<lparr>direction := d\<rparr>"
proof -
  from assms obtain off where "ADJACENT_OFFSETS e = Some off"
    by (auto simp: mirror_reflect_def split: option.splits)
  then obtain s where "e = {s}" by (auto dest: ADJACENT_OFFSETS_Some)
  with assms show ?thesis unfolding \<open>e = {s}\<close> mirror_reflect_single by blast
qed

lemma mirror_reflect_flips:
  assumes "mirror_reflect cell e r = Inr r'"
  shows "magnitude (direction r') = magnitude (direction r)
         \<and> (direction r' = flip_horizontal (direction r)
              \<or> direction r' = flip_vertical (direction r))"
proof -
  from assms obtain off where "ADJACENT_OFFSETS e = Some off"
    by (auto simp: mirror_reflect_def split: option.splits)
  then obtain s where "e = {s}" by (auto dest: ADJACENT_OFFSETS_Some)
  with assms show ?thesis
    by (auto simp: mirror_reflect_single magnitude_flip split: if_splits)
qed

text \<open>
  C5. At a mirror cell entered by the single side \<open>s\<close>, \<open>mirror_reflect\<close> looks at the
  neighbouring cell one step from the mirror's cell in the direction of \<open>s\<close>. When that
  neighbour is occupied (its type is truthy) it flips the orthogonal component of the
  heading: the vertical one for an entry by LEFT or RIGHT, the horizontal one for an
  entry by UP or DOWN. When the neighbour is unoccupied it flips the matching component:
  the horizontal one for LEFT or RIGHT, the vertical one for UP or DOWN.
\<close>

theorem C5_mirror_reflect_by_neighbour:
  "mirror_reflect cell {s} r =
     Inr (r\<lparr>direction :=
            (if truthy (neighbour (cell_map r) cell s)
             then (if s \<in> {LEFT, RIGHT} then flip_vertical (direction r)
                   else flip_horizontal (direction r))
             else (if s \<in> {LEFT, RIGHT} then flip_horizontal (direction r)
                   else flip_vertical (direction r)))\<rparr>)"
  by (simp add: mirror_reflect_single)

theorem C5_witness:
  "neighbour wall_map (2, 0) LEFT = BoolType False
   \<and> neighbour wall_map (2, 0) RIGHT = WallType NORMAL
   \<and> mirror_reflect (2, 0) {LEFT} mirror_ray = Inr (mirror_ray\<lparr>direction := (-3/5, 4/5)\<rparr>)
   \<and> mirror_reflect (2, 0) {RIGHT} mirror_ray = Inr (mirror_ray\<lparr>direction := (3/5, -4/5)\<rparr>)"
proof -
  have n: "neighbour wall_map (2, 0) LEFT = BoolType False"
    "neighbour wall_map (2, 0) RIGHT = WallType NORMAL"
    by (simp_all add: neighbour_def wall_map_simps trunc_def)
  have m: "cell_map mirror_ray = wall_map" "direction mirror_ray = (3/5, 4/5)"
    by (simp_all add: mirror_ray_def CastingRay_init_def)
  from C5_mirror_reflect_by_neighbour [of "(2, 0)" LEFT mirror_ray]
    C5_mirror_reflect_by_neighbour [of "(2, 0)" RIGHT mirror_ray]
  show ?thesis
    by (simp add: n m flip_horizontal_def flip_vertical_def)
qed

text \<open>
  C6. At every reflection event, that is whenever \<open>handle_type\<close> meets a mirror whose
  sides contain the entry side and returns, the heading afterwards has the magnitude it
  had before, and it is the old heading with one of its two components negated and the
  other unchanged.
\<close>

theorem C6_reflection_flips_one_component:
  assumes "handle_type (MirrorType m) enter_side cell r = Inr (a, r1)"
    and "sides m \<inter> enter_side \<noteq> {}"
  shows "magnitude (direction r1) = magnitude (direction r)
         \<and> (direction r1 = flip_horizontal (direction r)
              \<or> direction r1 = flip_vertical (direction r))"
proof -
  let ?r2 = "(add_segment_and_point (MirrorType m) r)
               \<lparr>start_position := end_position r, segment_distance := 0\<rparr>"
  from assms have "mirror_reflect cell enter_side ?r2 = Inr r1"
    by (auto simp: Let_def add_segment_and_point_def split: sum.splits)
  from mirror_reflect_flips [OF this] show ?thesis
    by (simp add: add_segment_and_point_def)
qed

theorem C6_witness:
  "handle_type (MirrorType \<lparr>sides = {LEFT}\<rparr>) {LEFT} (2, 0) mirror_ray
     = Inr ([], (add_segment_and_point (MirrorType \<lparr>sides = {LEFT}\<rparr>) mirror_ray)
                  \<lparr>segment_distance := 0, direction := (-3/5, 4/5)\<rparr>)
   \<and> sides \<lparr>sides = {LEFT}\<rparr> \<inter> {LEFT} = {LEFT}
   \<and> magnitude (-3/5, 4/5) = magnitude (direction mirror_ray)
   \<and> (-3/5, 4/5) = flip_horizontal (direction mirror_ray)"
proof -
  have n: "neighbour wall_map (2, 0) LEFT = BoolType False"
    by (simp add: neighbour_def wall_map_simps trunc_def)
  have h: "handle_type (MirrorType \<lparr>sides = {LEFT}\<rparr>) {LEFT} (2, 0) mirror_ray
     = Inr ([], (add_segment_and_point (MirrorType \<lparr>sides = {LEFT}\<rparr>) mirror_ray)
                  \<lparr>segment_distance := 0, direction := (-3/5, 4/5)\<rparr>)"
    by (simp add: Let_def mirror_reflect_single n flip_horizontal_def flip_vertical_def)
       (simp add: add_segment_and_point_def mirror_ray_def CastingRay_init_def n)
  have s: "sides \<lparr>sides = {LEFT}\<rparr> \<inter> {LEFT} \<noteq> {}" by simp
  from C6_reflection_flips_one_component [OF h s] h show ?thesis
    by (simp add: add_segment_and_point_def mirror_ray_def CastingRay_init_def
          flip_horizontal_def)
qed

section \<open>The loop of cast\<close>

lemma links_lookup_single: "links_lookup ls {s} = Inr (ls s)"
  by (cases s) (simp_all add: links_lookup_def)

lemma cast_body_unfold:
  "cast_body c r =
     (case handle_type (cell_type_at c r) (enter_side_at c r) (cell_at c r) (with_point r) of
        Inl e \<Rightarrow> Some (Inl e)
      | Inr (action, r1) \<Rightarrow>
          if action = ''break'' then Some (Inr (''break'', r1))
          else if action = ''continue'' then Some (Inr (''continue'', r1))
          else take_step (cell_pos_at c r) r1)"
  by (simp add: cast_body_def Let_def cell_type_at_def enter_side_at_def cell_at_def
        cell_pos_at_def with_point_def split: sum.splits prod.splits)

lemma cast_body_cases:
  assumes "cast_body c r = Some (Inr (a, r1))"
  obtains (handled)
      "handle_type (cell_type_at c r) (enter_side_at c r) (cell_at c r) (with_point r) = Inr (a, r1)"
      "a = ''break'' \<or> a = ''continue''"
  | (stepped) a' r2 where
      "handle_type (cell_type_at c r) (enter_side_at c r) (cell_at c r) (with_point r) = Inr (a', r2)"
      "a' \<noteq> ''break''" "a' \<noteq> ''continue''"
      "take_step (cell_pos_at c r) r2 = Some (Inr (a, r1))"
  using assms unfolding cast_body_unfold
  by (auto split: sum.splits prod.splits if_splits)

lemma cast_break: "cast_body c r = Some (Inr (''break'', r1)) \<Longrightarrow> cast c r = Some (Inr r1)"
  by (subst cast.simps) simp

lemma cast_again:
  "cast_body c r = Some (Inr (a, r1)) \<Longrightarrow> a \<noteq> ''break'' \<Longrightarrow> cast c r = cast c r1"
  by (subst cast.simps) simp

text \<open>A loop rule for \<open>cast\<close>: an invariant kept by every pass that goes round again, and
  a postcondition established by every pass that breaks.\<close>

lemma cast_rule:
  assumes "cast c r = Some (Inr r')" and "I r"
    and step: "\<And>r a r1. I r \<Longrightarrow> cast_body c r = Some (Inr (a, r1)) \<Longrightarrow>
                 (a = ''break'' \<longrightarrow> Q r1) \<and> (a \<noteq> ''break'' \<longrightarrow> I r1)"
  shows "Q r'"
proof -
  let ?P = "\<lambda>c0 r (y :: error + CastingRay). c0 = c \<longrightarrow> I r \<longrightarrow> (\<forall>r'. y = Inr r' \<longrightarrow> Q r')"
  have "?P c r (Inr r')"
  proof (rule cast.raw_induct [where P = ?P, OF _ assms(1)])
    fix cast' c0 r y
    assume IH: "\<And>c1 r1 y1. cast' c1 r1 = Some y1 \<Longrightarrow> ?P c1 r1 y1"
      and eq: "(case cast_body c0 r of None \<Rightarrow> None | Some (Inl e) \<Rightarrow> Some (Inl e)
                | Some (Inr (action, r1)) \<Rightarrow>
                    if action = ''break'' then Some (Inr r1) else cast' c0 r1) = Some y"
    show "?P c0 r y"
    proof (intro impI allI)
      fix r' assume c0: "c0 = c" and inv: "I r" and y: "y = Inr r'"
      from eq c0 y obtain a r1 where body: "cast_body c r = Some (Inr (a, r1))"
        and rest: "(if a = ''break'' then Some (Inr r1) else cast' c r1) = Some (Inr r')"
        by (auto split: option.splits sum.splits prod.splits)
      from step [OF inv body] have q: "a = ''break'' \<longrightarrow> Q r1" and i: "a \<noteq> ''break'' \<longrightarrow> I r1"
        by simp_all
      show "Q r'"
      proof (cases "a = ''break''")
        case True
        with rest q show ?thesis by simp
      next
        case False
        with rest have "cast' c r1 = Some (Inr r')" by simp
        from IH [OF this] False i show ?thesis by simp
      qed
    qed
  qed
  with assms(2) show ?thesis by simp
qed


lemma shorten_bounds:
  assumes "shorten_until_in_bounds r a = Some a'"
  shows "(0 \<le> a \<longrightarrow> 0 \<le> a' \<and> a' \<le> a) \<and> (a \<le> 0 \<longrightarrow> a \<le> a' \<and> a' \<le> 0)"
proof -
  let ?P = "\<lambda>(r::CastingRay) (a::real) a'.
              (0 \<le> a \<longrightarrow> 0 \<le> a' \<and> a' \<le> a) \<and> (a \<le> 0 \<longrightarrow> a \<le> a' \<and> a' \<le> 0)"
  have "?P r a a'"
  proof (rule shorten_until_in_bounds.raw_induct [where P = ?P, OF _ assms])
    fix shorten r a a'
    assume IH: "\<And>r1 a1 y1. shorten r1 a1 = Some y1 \<Longrightarrow> ?P r1 a1 y1"
      and eq: "(let adjusted = a * (99/100);
                    safe_end_position = vadd (end_position r) (position_step r adjusted)
                in if in_bounds (cell_map r) safe_end_position then Some adjusted
                   else shorten r adjusted) = Some a'"
    let ?b = "a * (99/100)"
    have b: "?P r a ?b" by auto
    show "?P r a a'"
    proof (cases "in_bounds (cell_map r) (vadd (end_position r) (position_step r ?b))")
      case True
      with eq have e: "a' = ?b" by (simp add: Let_def)
      from b show ?thesis unfolding e .
    next
      case False
      with eq have "shorten r ?b = Some a'" by (simp add: Let_def)
      from IH [OF this] b show ?thesis by auto
    qed
  qed
  then show ?thesis .
qed

lemma handle_type_cases:
  assumes "handle_type t e cell r = Inr (a, r1)"
  obtains (closed) "a = ''break''" "r1 = add_segment_and_point (WallType NORMAL) r"
  | (reflected) m d where "t = MirrorType m" "a = []"
      "r1 = (add_segment_and_point (MirrorType m) r)
              \<lparr>start_position := end_position r, segment_distance := 0, direction := d\<rparr>"
  | (teleport) p where "t = PortalType p" "a = ''continue''" "r1 = teleported p r"
  | (pass) "a = []" "r1 = r"
proof (cases t)
  case (BoolType b)
  with assms have "a = []" "r1 = r" by simp_all
  then show ?thesis by (rule pass)
next
  case (WallType w)
  show ?thesis
  proof (cases w)
    case NORMAL
    with WallType assms show ?thesis by (intro closed) simp_all
  next
    case BORDER
    with WallType assms show ?thesis by (intro pass) simp_all
  qed
next
  case (MirrorType m)
  show ?thesis
  proof (cases "sides m \<inter> e \<noteq> {}")
    case False
    with MirrorType assms show ?thesis by (intro closed) simp_all
  next
    case True
    let ?r2 = "(add_segment_and_point (MirrorType m) r)
                 \<lparr>start_position := end_position r, segment_distance := 0\<rparr>"
    from True MirrorType assms have mr: "mirror_reflect cell e ?r2 = Inr r1" and a: "a = []"
      by (auto simp: Let_def add_segment_and_point_def split: sum.splits)
    from mirror_reflect_direction [OF mr] obtain d where "r1 = ?r2\<lparr>direction := d\<rparr>" ..
    with a MirrorType show ?thesis by (intro reflected [of m d]) simp_all
  qed
next
  case (PortalType p)
  show ?thesis
  proof (cases "links_lookup (links p) e")
    case (Inl x)
    with PortalType assms show ?thesis by simp
  next
    case (Inr l)
    show ?thesis
    proof (cases l)
      case None
      with Inr PortalType assms show ?thesis by (intro closed) simp_all
    next
      case (Some lk)
      with Inr PortalType assms show ?thesis
        by (intro teleport [of p])
           (auto simp: Let_def teleported_def nudged_image_def add_segment_and_point_def)
    qed
  qed
qed

lemma take_step_cases:
  assumes "take_step cell_pos r = Some (Inr (a, r1))"
  obtains (exhausted) "a = ''break''"
      "(a, r1) = finish_step (visible_distance r - total_distance r) (BoolType False) r"
  | (border) s adj where "a = ''break''"
      "step_to_edge (fst cell_pos, snd cell_pos) (fst (direction r), snd (direction r))
         = Inr (Finite s)"
      "total_distance r + s \<le> visible_distance r"
      "shorten_until_in_bounds r s = Some adj"
      "(a, r1) = finish_step adj (WallType BORDER) r"
  | (commit) s where "a = []"
      "step_to_edge (fst cell_pos, snd cell_pos) (fst (direction r), snd (direction r))
         = Inr (Finite s)"
      "total_distance r + s \<le> visible_distance r"
      "r1 = r\<lparr>end_position := vadd (end_position r) (position_step r s),
               total_distance := total_distance r + s,
               segment_distance := segment_distance r + s\<rparr>"
proof (cases "step_to_edge (fst cell_pos, snd cell_pos) (fst (direction r), snd (direction r))")
  case (Inl e)
  with assms show ?thesis by (simp add: take_step_def)
next
  case (Inr st)
  show ?thesis
  proof (cases st)
    case Infinity
    with Inr assms show ?thesis
      by (intro exhausted) (auto simp: take_step_def finish_step_def Let_def)
  next
    case (Finite s)
    show ?thesis
    proof (cases "total_distance r + s > visible_distance r")
      case True
      with Finite Inr assms show ?thesis
        by (intro exhausted) (auto simp: take_step_def finish_step_def Let_def)
    next
      case le: False
      show ?thesis
      proof (cases "in_bounds (cell_map r) (vadd (end_position r) (position_step r s))")
        case True
        with le Finite Inr assms show ?thesis
          by (intro commit [of s]) (auto simp: take_step_def Let_def)
      next
        case False
        with le Finite Inr assms obtain adj where
          "shorten_until_in_bounds r s = Some adj" "(a, r1) = finish_step adj (WallType BORDER) r"
          by (auto simp: take_step_def Let_def split: option.splits)
        with le Finite Inr show ?thesis
          by (intro border [of s adj]) (auto simp: finish_step_def Let_def)
      qed
    qed
  qed
qed

lemma handle_type_keeps:
  assumes "handle_type t e cell r = Inr (a, r1)"
  shows "total_distance r1 = total_distance r \<and> visible_distance r1 = visible_distance r
         \<and> cell_map r1 = cell_map r"
  using assms
  by (cases rule: handle_type_cases)
     (simp_all add: add_segment_and_point_def teleported_def)

lemma finish_step_total:
  "finish_step adj et r = (a, r1) \<Longrightarrow>
     total_distance r1 = total_distance r + adj \<and> visible_distance r1 = visible_distance r
     \<and> segments r1 \<noteq> [] \<and> end_type (last (segments r1)) = et \<and> a = ''break''"
  by (auto simp: finish_step_def Let_def add_segment_and_point_def)

lemma cast_ray_Some:
  assumes "cast_ray c cm pos dir vis = Some (Inr ((tot, segs), pts))"
  obtains r' where "cast c (CastingRay_init dir vis pos cm) = Some (Inr r')"
    "tot = total_distance r'" "segs = segments r'" "pts = points r'"
proof -
  from assms obtain z where z: "cast c (CastingRay_init dir vis pos cm) = Some z"
    "map_sum id (\<lambda>ray. ((total_distance ray, segments ray), points ray)) z
       = Inr ((tot, segs), pts)"
    by (auto simp: cast_ray_def)
  from z(2) obtain r' where "z = Inr r'" "tot = total_distance r'" "segs = segments r'"
    "pts = points r'"
    by (cases z) auto
  with z(1) that show ?thesis by simp
qed

subsection \<open>The example casts\<close>


lemma tunnel_step1: "cast_body ref_cells tunnel_ray1 = Some (Inr (''continue'', tunnel_ray2))"
  by (simp add: tunnel_ray1_def tunnel_ray2_def eval_defs tunnel_map_simps)





lemma wall_step0: "cast_body ref_cells wall_ray = Some (Inr ([], wall_ray1))"
  by (simp add: wall_ray_def wall_ray1_def CastingRay_init_def eval_defs wall_map_simps)

lemma wall_step1: "cast_body ref_cells wall_ray1 = Some (Inr (''break'', wall_ray2))"
  by (simp add: wall_ray1_def wall_ray2_def eval_defs wall_map_simps)

lemma cast_wall_ray: "cast ref_cells wall_ray = Some (Inr wall_ray2)"
proof -
  have "cast ref_cells wall_ray = cast ref_cells wall_ray1"
    by (rule cast_again [OF wall_step0]) simp
  also have "\<dots> = Some (Inr wall_ray2)" by (rule cast_break [OF wall_step1])
  finally show ?thesis .
qed

lemma inside_step0: "cast_body ref_cells inside_ray = Some (Inr (''break'', inside_ray1))"
  by (simp add: inside_ray_def inside_ray1_def CastingRay_init_def eval_defs wall_map_simps)

lemma short_step0: "cast_body ref_cells short_ray = Some (Inr ([], short_ray1))"
  by (simp add: short_ray_def short_ray1_def CastingRay_init_def eval_defs wall_map_simps)

lemma short_step1: "cast_body ref_cells short_ray1 = Some (Inr (''break'', short_ray2))"
  by (simp add: short_ray1_def short_ray2_def eval_defs wall_map_simps)

lemma cast_short_ray: "cast ref_cells short_ray = Some (Inr short_ray2)"
proof -
  have "cast ref_cells short_ray = cast ref_cells short_ray1"
    by (rule cast_again [OF short_step0]) simp
  also have "\<dots> = Some (Inr short_ray2)" by (rule cast_break [OF short_step1])
  finally show ?thesis .
qed





section \<open>Portals\<close>

text \<open>
  C7. In every pass of the loop that finds the ray in a portal cell, entered by the single
  side \<open>s\<close>: when \<open>links[s]\<close> is unset, the pass closes the segment with the tag of a
  normal wall and the cast ends there; otherwise the pass closes the segment with the
  portal as its tag, applies the portal transform to position and heading, moves the
  transformed position on by 0.05 along the new heading, makes that point both the start
  and the end of the new segment, and the loop goes round again from there without taking
  a step to the edge.
\<close>

theorem C7_portal_pass:
  assumes cell: "cell_type_at c r = PortalType p"
    and side: "enter_side_at c r = {s}"
  shows "(links p s = None \<longrightarrow>
            cast_body c r
              = Some (Inr (''break'', add_segment_and_point (WallType NORMAL) (with_point r)))
            \<and> cast c r = Some (Inr (add_segment_and_point (WallType NORMAL) (with_point r))))
       \<and> (links p s \<noteq> None \<longrightarrow>
            cast_body c r = Some (Inr (''continue'', teleported p (with_point r)))
            \<and> cast c r = cast c (teleported p (with_point r)))"
proof (intro conjI impI)
  assume unset: "links p s = None"
  show b: "cast_body c r
             = Some (Inr (''break'', add_segment_and_point (WallType NORMAL) (with_point r)))"
    using cell side unset by (simp add: cast_body_unfold links_lookup_single)
  show "cast c r = Some (Inr (add_segment_and_point (WallType NORMAL) (with_point r)))"
    by (rule cast_break [OF b])
next
  assume "links p s \<noteq> None"
  then obtain l where l: "links p s = Some l" by auto
  show b: "cast_body c r = Some (Inr (''continue'', teleported p (with_point r)))"
    using cell side l
    by (simp add: cast_body_unfold links_lookup_single Let_def teleported_def nudged_image_def
          add_segment_and_point_def with_point_def)
  show "cast c r = cast c (teleported p (with_point r))"
    by (rule cast_again [OF b]) simp
qed

theorem C7_witness:
  "cell_type_at ref_cells tunnel_ray1 = PortalType tunnel
   \<and> enter_side_at ref_cells tunnel_ray1 = {RIGHT}
   \<and> links tunnel RIGHT = Some ((2, 0), {LEFT})
   \<and> cast_body ref_cells tunnel_ray1 = Some (Inr (''continue'', tunnel_ray2))
   \<and> teleported tunnel (with_point tunnel_ray1) = tunnel_ray2"
proof -
  have cell: "cell_type_at ref_cells tunnel_ray1 = PortalType tunnel"
    by (simp add: cell_type_at_def cell_at_def tunnel_ray1_def ref_cells_def
          ref_split_position_def tunnel_map_simps trunc_def)
  have side: "enter_side_at ref_cells tunnel_ray1 = {RIGHT}"
    by (simp add: enter_side_at_def cell_pos_at_def tunnel_ray1_def ref_cells_def
          ref_split_position_def ref_get_enter_side_def tunnel_map_simps Let_def)
  from C7_portal_pass [OF cell side] tunnel_step1 cell side show ?thesis
    by (simp add: tunnel_links)
qed

section \<open>Progress and termination\<close>




section \<open>Total distance\<close>

lemma cast_body_total:
  assumes inv: "total_distance r \<le> visible_distance r"
    and body: "cast_body c r = Some (Inr (a, r1))"
  shows "visible_distance r1 = visible_distance r \<and> total_distance r1 \<le> visible_distance r
         \<and> (a = ''break'' \<longrightarrow> segments r1 \<noteq> []
              \<and> (end_type (last (segments r1)) = BoolType False
                    \<longrightarrow> total_distance r1 = visible_distance r))"
  using body
proof (cases rule: cast_body_cases)
  case handled
  from handle_type_keeps [OF handled(1)] inv
  have keep: "visible_distance r1 = visible_distance r" "total_distance r1 \<le> visible_distance r"
    by (simp_all add: with_point_def)
  from handled(1) have "a = ''break'' \<longrightarrow> segments r1 \<noteq> []
      \<and> end_type (last (segments r1)) \<noteq> BoolType False"
    by (cases rule: handle_type_cases) (simp_all add: add_segment_and_point_def)
  with keep show ?thesis by simp
next
  case (stepped a' r2)
  from handle_type_keeps [OF stepped(1)] inv
  have keep: "visible_distance r2 = visible_distance r" "total_distance r2 \<le> visible_distance r"
    by (simp_all add: with_point_def)
  from stepped(4) show ?thesis
  proof (cases rule: take_step_cases)
    case exhausted
    from finish_step_total [OF exhausted(2) [symmetric]] keep show ?thesis by simp
  next
    case (border s adj)
    from shorten_bounds [OF border(4)] border(3) keep
    have "total_distance r2 + adj \<le> visible_distance r" by (cases "0 \<le> s") auto
    with finish_step_total [OF border(5) [symmetric]] keep show ?thesis by simp
  next
    case (commit s)
    with keep show ?thesis by simp
  qed
qed

lemma cast_total:
  assumes "cast c r = Some (Inr r')" and "total_distance r \<le> visible_distance r"
  shows "total_distance r' \<le> visible_distance r \<and> segments r' \<noteq> []
         \<and> (end_type (last (segments r')) = BoolType False
               \<longrightarrow> total_distance r' = visible_distance r)"
proof (rule cast_rule [OF assms(1),
    where I = "\<lambda>x. total_distance x \<le> visible_distance x \<and> visible_distance x = visible_distance r"])
  show "total_distance r \<le> visible_distance r \<and> visible_distance r = visible_distance r"
    using assms(2) by simp
next
  fix x a x1
  assume inv: "total_distance x \<le> visible_distance x \<and> visible_distance x = visible_distance r"
    and body: "cast_body c x = Some (Inr (a, x1))"
  from inv have "total_distance x \<le> visible_distance x" by simp
  from cast_body_total [OF this body] inv
  show "(a = ''break'' \<longrightarrow> total_distance x1 \<le> visible_distance r \<and> segments x1 \<noteq> []
           \<and> (end_type (last (segments x1)) = BoolType False
                 \<longrightarrow> total_distance x1 = visible_distance r))
        \<and> (a \<noteq> ''break'' \<longrightarrow> total_distance x1 \<le> visible_distance x1
              \<and> visible_distance x1 = visible_distance r)"
    by simp
qed

text \<open>
  C2, as amended. For every completed cast with a visible distance \<open>D \<ge> 0\<close>, the final
  total distance is at most \<open>D\<close>, there is a final segment, and when the tag of that
  segment is the exhausted marker \<open>False\<close> the total distance equals \<open>D\<close>.
\<close>

theorem C2_total_distance_bounded:
  assumes "cast_ray c cm pos dir vis = Some (Inr ((tot, segs), pts))" and "0 \<le> vis"
  shows "tot \<le> vis \<and> segs \<noteq> [] \<and> (end_type (last segs) = BoolType False \<longrightarrow> tot = vis)"
proof -
  from assms(1) obtain r' where c: "cast c (CastingRay_init dir vis pos cm) = Some (Inr r')"
    and r': "tot = total_distance r'" "segs = segments r'"
    by (rule cast_ray_Some)
  from cast_total [OF c] assms(2) r' show ?thesis by (simp add: CastingRay_init_def)
qed

theorem C2_witness:
  "cast_ray ref_cells wall_map (5, 5) (1, 0) 1
     = Some (Inr ((1, [\<lparr>start_pos = (5, 5), end_pos = (15, 5), distance = 1,
                        end_type = BoolType False\<rparr>]),
                  [(5, 5), (10, 5), (15, 5)]))
   \<and> (0::real) \<le> 1"
proof -
  have c: "cast_ray ref_cells wall_map (5, 5) (1, 0) 1
     = Some (Inr ((1, [\<lparr>start_pos = (5, 5), end_pos = (15, 5), distance = 1,
                        end_type = BoolType False\<rparr>]),
                  [(5, 5), (10, 5), (15, 5)]))"
    using cast_short_ray by (simp add: cast_ray_def short_ray_def [symmetric]) (simp add: short_ray2_def)
  from C2_total_distance_bounded [OF c] c show ?thesis by simp
qed

text \<open>The claim as stated fails in its "only if": a ray that meets a wall after exactly
  its visible distance ends with that total distance and the tag of a normal wall. The
  bound itself needs \<open>D \<ge> 0\<close>: with \<open>D = -1\<close> a ray that starts inside a wall ends with
  total distance 0.\<close>

theorem C2_counterexample:
  "cast_ray ref_cells wall_map (20, 5) (1, 0) 1
     = Some (Inr ((1, [\<lparr>start_pos = (20, 5), end_pos = (30, 5), distance = 1,
                        end_type = WallType NORMAL\<rparr>]),
                  [(20, 5), (30, 5), (30, 5)]))
   \<and> end_type \<lparr>start_pos = (20, 5), end_pos = (30, 5), distance = 1,
               end_type = WallType NORMAL\<rparr> \<noteq> BoolType False
   \<and> cast_ray ref_cells wall_map (35, 5) (1, 0) (-1)
     = Some (Inr ((0, [\<lparr>start_pos = (35, 5), end_pos = (35, 5), distance = 0,
                        end_type = WallType NORMAL\<rparr>]),
                  [(35, 5), (35, 5)]))"
  using cast_wall_ray cast_break [OF inside_step0]
  by (simp add: cast_ray_def wall_ray_def [symmetric] inside_ray_def [symmetric])
     (simp add: wall_ray2_def inside_ray1_def)

section \<open>Contiguity of segments\<close>











section \<open>The fan of angles\<close>









section \<open>The movement resolver\<close>

lemma clamp_Inr: "clamp v lo hi = Inr x \<Longrightarrow> x = max lo (min hi v)"
  by (auto simp: clamp_def split: if_splits)

lemma clamp_inside: "lo \<le> v \<Longrightarrow> v \<le> hi \<Longrightarrow> clamp v lo hi = Inr v"
  by (simp add: clamp_def)

lemma keep_in_bounds_Inr:
  "keep_in_bounds cm p = Inr p' \<Longrightarrow> p' = p\<lparr>position := inset cm p (position p)\<rparr>"
  by (auto simp: keep_in_bounds_def inset_def split: sum.splits dest!: clamp_Inr)

lemma move_moving:
  assumes "pressed_combo keys \<noteq> {}" and "square_size cm \<noteq> 0"
  shows "move keys cm p =
           keep_in_bounds cm
             (if teleports keys cm p
              then p\<lparr>position := fst (portal_transform cm (candidate_position keys p) (facing p)),
                     facing := snd (portal_transform cm (candidate_position keys p) (facing p))\<rparr>
              else p\<lparr>position := glide_sequential cm (position p) (candidate_position keys p)\<rparr>)"
  using assms
  unfolding move_def pressed_combo_def [symmetric] Let_def
  by (simp add: candidate_position_def teleports_def cell_of_def glide_sequential_def Let_def)

lemma move_Inr_square:
  assumes "move keys cm p = Inr p'" and "pressed_combo keys \<noteq> {}"
  shows "square_size cm \<noteq> 0"
  using assms unfolding move_def pressed_combo_def [symmetric] Let_def
  by (auto split: if_splits)

subsection \<open>The example tick\<close>

lemma sqrt2_bounds: "1 < sqrt 2" "sqrt 2 < 2"
proof -
  show "1 < sqrt 2" by simp
  show "sqrt 2 < 2" by (rule real_less_lsqrt) simp_all
qed

lemma pressed_sprint: "pressed_combo sprint_forward_right = {FORWARD, RIGHTWARD}"
  by (auto simp: pressed_combo_def sprint_forward_right_def DIRECTION_BINDS_def resolved_def)

lemma angle_sprint: "MOVEMENT_ANGLES {FORWARD, RIGHTWARD} = Some 45"
  by (auto simp: MOVEMENT_ANGLES_def)

lemma rotate_45: "rotate (0, -1) 45 = (sqrt 2 / 2, - (sqrt 2 / 2))"
proof -
  have "(45::real) * pi / 180 = pi / 4" by simp
  then show ?thesis by (simp add: rotate_def Let_def cos_45 sin_45)
qed

lemma player0_simps:
  "position player0 = (9, 11)" "radius player0 = 2" "facing player0 = (0, -1)"
  by (simp_all add: player0_def)

lemma candidate0:
  "candidate_position sprint_forward_right player0 = (9 + 3 * sqrt 2 / 2, 11 - 3 * sqrt 2 / 2)"
  by (simp add: candidate_position_def pressed_sprint angle_sprint player0_def rotate_45
        sprint_forward_right_def SPEED_MULTIPLIER_def vadd_def vscale_def)

lemma floordiv_10:
  "of_int n * 10 \<le> a \<Longrightarrow> a < of_int n * 10 + 10 \<Longrightarrow> floordiv a 10 = n"
  by (simp add: floordiv_def floor_eq_iff)

lemma floors0:
  "floordiv (9 + 3 * sqrt 2 / 2) 10 = 1" "floordiv (11 - 3 * sqrt 2 / 2) 10 = 0"
  "floordiv 9 10 = 0" "floordiv 11 10 = 1"
proof -
  have b: "1 < sqrt 2" "sqrt 2 < 2" by (rule sqrt2_bounds)+
  have "10 \<le> 9 + 3 * sqrt 2 / 2" "9 + 3 * sqrt 2 / 2 < 20" using b by linarith+
  then show "floordiv (9 + 3 * sqrt 2 / 2) 10 = 1" by (intro floordiv_10) simp_all
  have "0 \<le> 11 - 3 * sqrt 2 / 2" "11 - 3 * sqrt 2 / 2 < 10" using b by linarith+
  then show "floordiv (11 - 3 * sqrt 2 / 2) 10 = 0" by (intro floordiv_10) simp_all
  show "floordiv 9 10 = 0" "floordiv 11 10 = 1" by (simp_all add: floordiv_def)
qed

lemma clamp0:
  "clamp (9 + 3 * sqrt 2 / 2) 2 28 = Inr (9 + 3 * sqrt 2 / 2)"
  "clamp (11 - 3 * sqrt 2 / 2) 2 28 = Inr (11 - 3 * sqrt 2 / 2)"
proof -
  have b: "1 < sqrt 2" "sqrt 2 < 2" by (rule sqrt2_bounds)+
  show "clamp (9 + 3 * sqrt 2 / 2) 2 28 = Inr (9 + 3 * sqrt 2 / 2)"
    by (rule clamp_inside) (use b in linarith)+
  show "clamp (11 - 3 * sqrt 2 / 2) 2 28 = Inr (11 - 3 * sqrt 2 / 2)"
    by (rule clamp_inside) (use b in linarith)+
qed

lemma teleports0: "\<not> teleports sprint_forward_right corner_map player0"
  by (simp add: teleports_def cell_of_def candidate0 corner_map_simps floors0)

lemma glide_sequential0:
  "glide_sequential corner_map (position player0)
     (candidate_position sprint_forward_right player0)
   = (9 + 3 * sqrt 2 / 2, 11 - 3 * sqrt 2 / 2)"
  by (simp add: glide_sequential_def cell_of_def candidate0 corner_map_simps floors0
        player0_simps)

lemma glide_independent0:
  "glide_independent corner_map (position player0)
     (candidate_position sprint_forward_right player0) = (9 + 3 * sqrt 2 / 2, 11)"
  by (simp add: glide_independent_def cell_of_def candidate0 corner_map_simps floors0
        player0_simps)

lemma move0:
  "move sprint_forward_right corner_map player0
     = Inr (player0\<lparr>position := (9 + 3 * sqrt 2 / 2, 11 - 3 * sqrt 2 / 2)\<rparr>)"
proof -
  have ne: "pressed_combo sprint_forward_right \<noteq> {}" by (simp add: pressed_sprint)
  have sq: "square_size corner_map \<noteq> 0" by (simp add: corner_map_simps)
  have "move sprint_forward_right corner_map player0
      = keep_in_bounds corner_map
          (player0\<lparr>position := (9 + 3 * sqrt 2 / 2, 11 - 3 * sqrt 2 / 2)\<rparr>)"
    unfolding move_moving [OF ne sq] glide_sequential0 using teleports0 by simp
  then show ?thesis
    by (simp add: keep_in_bounds_def corner_map_simps player0_simps clamp0)
qed

text \<open>
  C8, as amended. In every movement tick with a resolved movement combination other than
  NONE that returns: when the cell of the full candidate destination holds a portal and
  the cell of the current position is empty, the player is teleported by the portal
  transform of the candidate destination and the heading, with no nudge; otherwise the
  horizontal move is tried first and committed only when the cell of the new \<open>x\<close> and the
  old \<open>y\<close> is empty, and then the vertical move is tried from the \<open>x\<close> that this left
  and committed only when the cell of that \<open>x\<close> and the new \<open>y\<close> is empty. In both cases
  the position is then held inside the map, inset by the radius.
\<close>

theorem C8_move_teleports_or_glides:
  assumes "move keys cm p = Inr p'" and "pressed_combo keys \<noteq> {}"
  shows "(teleports keys cm p \<longrightarrow>
            position p' = inset cm p (fst (portal_transform cm (candidate_position keys p) (facing p)))
            \<and> facing p' = snd (portal_transform cm (candidate_position keys p) (facing p)))
       \<and> (\<not> teleports keys cm p \<longrightarrow>
            position p' = inset cm p (glide_sequential cm (position p) (candidate_position keys p))
            \<and> facing p' = facing p)"
proof -
  from move_Inr_square [OF assms] have sq: "square_size cm \<noteq> 0" .
  from assms(1) show ?thesis
    unfolding move_moving [OF assms(2) sq]
    by (auto dest!: keep_in_bounds_Inr simp: inset_def split: if_splits)
qed

theorem C8_witness:
  "move sprint_forward_right corner_map player0
     = Inr (player0\<lparr>position := (9 + 3 * sqrt 2 / 2, 11 - 3 * sqrt 2 / 2)\<rparr>)
   \<and> pressed_combo sprint_forward_right = {FORWARD, RIGHTWARD}
   \<and> \<not> teleports sprint_forward_right corner_map player0
   \<and> inset corner_map player0
         (glide_sequential corner_map (position player0)
            (candidate_position sprint_forward_right player0))
       = (9 + 3 * sqrt 2 / 2, 11 - 3 * sqrt 2 / 2)"
proof -
  have ne: "pressed_combo sprint_forward_right \<noteq> {}" by (simp add: pressed_sprint)
  from C8_move_teleports_or_glides [OF move0 ne] show ?thesis
    by (simp add: move0 pressed_sprint teleports0)
qed

text \<open>The claim as stated fails where it says that the two axes are tried independently.
  The player sprints forward and to the right past the corner of the wall in the cell
  (0, 0): the cell above the player is that wall, so the vertical move on its own is
  blocked and the independent resolution leaves \<open>y\<close> at 11; the code tries the vertical
  move from the new \<open>x\<close>, in the open cell (1, 0), and moves the player diagonally.\<close>

theorem C8_counterexample:
  "move sprint_forward_right corner_map player0
     = Inr (player0\<lparr>position := (9 + 3 * sqrt 2 / 2, 11 - 3 * sqrt 2 / 2)\<rparr>)
   \<and> \<not> teleports sprint_forward_right corner_map player0
   \<and> inset corner_map player0
        (glide_independent corner_map (position player0)
           (candidate_position sprint_forward_right player0))
       = (9 + 3 * sqrt 2 / 2, 11)
   \<and> (9 + 3 * sqrt 2 / 2, 11 - 3 * sqrt 2 / 2) \<noteq> (9 + 3 * sqrt 2 / 2, 11)"
proof -
  have b: "1 < sqrt 2" "sqrt 2 < 2" by (rule sqrt2_bounds)+
  have "2 \<le> 9 + 3 * sqrt 2 / 2" "9 + 3 * sqrt 2 / 2 \<le> 28" using b by linarith+
  then have "inset corner_map player0 (9 + 3 * sqrt 2 / 2, 11) = (9 + 3 * sqrt 2 / 2, 11)"
    by (simp add: inset_def corner_map_simps player0_simps)
  then show ?thesis
    by (simp add: move0 teleports0 glide_independent0)
qed

end
